theory Spec2Isabelle
  imports Complex_Main
begin

section \<open>Numbers\<close>

text \<open>
  The program computes with JavaScript numbers. They are modelled by exact rationals
  (\<^typ>\<open>rat\<close>); rounding of IEEE doubles is outside the model. A JavaScript division never
  raises: a zero divisor yields \<open>Infinity\<close>, \<open>-Infinity\<close> or \<open>NaN\<close>. Such a non-finite
  result is the value \<^term>\<open>None\<close> of \<^typ>\<open>rat option\<close>, so that HOL's \<open>x / 0 = 0\<close> never
  stands in for it. Month counts (\<open>tenure\<close>, \<open>paidInstallments\<close>) are whole numbers,
  modelled by \<^typ>\<open>int\<close>.
\<close>

definition js_div :: "rat \<Rightarrow> rat \<Rightarrow> rat option" where
  "js_div a b = (if b = 0 then None else Some (a / b))"

section \<open>The EMI calculation (\<open>computeEmi\<close>)\<close>

text \<open>
  \<^verbatim>\<open>
  function computeEmi(principal: number, rate: number, tenure: number): number {
    if (!tenure || tenure <= 0) return 0;
    const monthlyRate = rate / (12 * 100);
    if (monthlyRate === 0) return principal / tenure;
    const pow = Math.pow(1 + monthlyRate, tenure);
    return (principal * monthlyRate * pow) / (pow - 1);
  }
  \<close>
  \<open>!tenure\<close> holds of the number \<open>0\<close>. For a whole number \<open>tenure > 0\<close>, \<open>Math.pow\<close> is the
  power of exact arithmetic. The parameter \<open>principal\<close> is written \<open>principal'\<close>.
\<close>

definition computeEmi :: "rat \<Rightarrow> rat \<Rightarrow> int \<Rightarrow> rat option" where
  "computeEmi principal' rate tenure =
     (if tenure = 0 \<or> tenure \<le> 0 then Some 0
      else let monthlyRate = rate / (12 * 100) in
        if monthlyRate = 0 then js_div principal' (of_int tenure)
        else let pow = (1 + monthlyRate) ^ nat tenure in
          js_div (principal' * monthlyRate * pow) (pow - 1))"

section \<open>Adding a borrower (\<open>addBorrower\<close>)\<close>






section \<open>Calendar dates (\<open>Date.setMonth\<close>)\<close>

text \<open>
  A \<open>Date\<close> is read through its calendar fields, as \<open>getFullYear\<close>, \<open>getMonth\<close>
  (January is \<open>0\<close>) and \<open>getDate\<close> give them; the time of day is not changed by the code
  and is left out, and so are time zones. \<open>setMonth(m)\<close> keeps the day of the month and
  lets the date overflow into the following months when the target month is shorter
  (ECMAScript \<open>MakeDay\<close>): it counts \<open>date - 1\<close> days on from the first day of month \<open>m\<close>,
  for a day of the month from \<open>1\<close> on, as \<open>getDate\<close> gives it.
\<close>

record jsdate =
  fullYear :: int
  month :: nat
  date :: nat

definition isLeapYear :: "int \<Rightarrow> bool" where
  "isLeapYear y = (y mod 4 = 0 \<and> (y mod 100 \<noteq> 0 \<or> y mod 400 = 0))"

definition daysInMonth :: "int \<Rightarrow> nat \<Rightarrow> nat" where
  "daysInMonth y m =
     (if m = 1 then (if isLeapYear y then 29 else 28)
      else if m = 3 \<or> m = 5 \<or> m = 8 \<or> m = 10 then 30
      else 31)"

function makeDay :: "int \<Rightarrow> nat \<Rightarrow> nat \<Rightarrow> jsdate" where
  "makeDay y m d =
     (if daysInMonth y m < d
      then (if m = 11 then makeDay (y + 1) 0 (d - daysInMonth y m)
            else makeDay y (m + 1) (d - daysInMonth y m))
      else \<lparr>fullYear = y, month = m, date = d\<rparr>)"
  by pat_completeness auto
termination
  by (relation "measure (\<lambda>(y, m, d). d)") (auto simp: daysInMonth_def)

declare makeDay.simps [simp del]

definition setMonth :: "jsdate \<Rightarrow> nat \<Rightarrow> jsdate" where
  "setMonth d m = makeDay (fullYear d + int (m div 12)) (m mod 12) (date d)"

section \<open>Loans and the payment handler (\<open>handlePayment\<close>)\<close>

datatype LoanStatus = Active | Completed

text \<open>
  The fields of a \<open>Loan\<close> that \<open>handlePayment\<close> reads. They arrive as JSON from the
  backend, so the numbers are finite.
\<close>

record Loan =
  loanId :: string
  tenure :: int
  interestRate :: rat
  emiAmount :: rat
  remainingPrincipal :: rat
  paidInstallments :: int
  nextDueDate :: "jsdate option"
  createdAt :: jsdate
  status :: LoanStatus

text \<open>The body of the request posted to \<open>/api/loans/:loanId/pay\<close>.\<close>

record PayBody =
  body_paidInstallments :: int
  body_remainingPrincipal :: rat
  body_nextDueDate :: "jsdate option"
  body_status :: LoanStatus

text \<open>
  What one call of \<open>handlePayment\<close> does: nothing when the loan is not among \<open>loans\<close>,
  the notice ``Loan Completed'' when the guard stops it, a posted request otherwise.
\<close>

datatype outcome = NoLoan | LoanCompleted | Posted PayBody

text \<open>
  \<^verbatim>\<open>
  const currentLoan = loans.find(l => l.loanId === loanId);
  if (!currentLoan) return;
  const alreadyPaid = installmentsPaid[loanId] || 0;
  if (alreadyPaid >= currentLoan.tenure) { toast "Loan Completed"; return; }
  const monthlyRate = currentLoan.interestRate / 1200;
  const interestPaid = currentLoan.remainingPrincipal * monthlyRate;
  const principalPaid = currentLoan.emiAmount - interestPaid;
  const newPrincipal = Math.max(0, currentLoan.remainingPrincipal - principalPaid);
  const installments = alreadyPaid + 1;
  const baseDate = currentLoan.nextDueDate
    ? new Date(currentLoan.nextDueDate) : new Date(currentLoan.createdAt);
  const nextDueDate = new Date(baseDate);
  nextDueDate.setMonth(nextDueDate.getMonth() + 1);
  const isCompleted = installments >= currentLoan.tenure;
  const newStatus = isCompleted ? 'completed' : 'active';
  setInstallmentsPaid(prev => ({ ...prev, [loanId]: installments }));
  POST { paidInstallments: installments, remainingPrincipal: newPrincipal,
         nextDueDate: isCompleted ? null : nextDueDate.toISOString(), status: newStatus }
  \<close>
\<close>

text \<open>The amounts \<open>interestPaid\<close>, \<open>principalPaid\<close> and \<open>newPrincipal\<close> of the handler.\<close>

definition monthlyRate :: "Loan \<Rightarrow> rat" where
  "monthlyRate currentLoan = interestRate currentLoan / 1200"

definition interestPaid :: "Loan \<Rightarrow> rat" where
  "interestPaid currentLoan = remainingPrincipal currentLoan * monthlyRate currentLoan"

definition principalPaid :: "Loan \<Rightarrow> rat" where
  "principalPaid currentLoan = emiAmount currentLoan - interestPaid currentLoan"

definition newPrincipal :: "Loan \<Rightarrow> rat" where
  "newPrincipal currentLoan = max 0 (remainingPrincipal currentLoan - principalPaid currentLoan)"

text \<open>
  The next due date of the handler: the base is \<open>nextDueDate\<close> when the loan has one and
  \<open>createdAt\<close> otherwise, then \<open>setMonth(getMonth() + 1)\<close>.
\<close>

definition baseDate :: "Loan \<Rightarrow> jsdate" where
  "baseDate currentLoan =
     (case nextDueDate currentLoan of Some d \<Rightarrow> d | None \<Rightarrow> createdAt currentLoan)"

definition nextDue :: "Loan \<Rightarrow> jsdate" where
  "nextDue currentLoan = setMonth (baseDate currentLoan) (month (baseDate currentLoan) + 1)"

text \<open>
  The handler from the guard on, for the loan found and the count \<open>alreadyPaid\<close> read
  from the view state \<open>installmentsPaid\<close>.
\<close>

definition payLoan :: "Loan \<Rightarrow> int \<Rightarrow> outcome" where
  "payLoan currentLoan alreadyPaid =
     (if alreadyPaid \<ge> tenure currentLoan then LoanCompleted
      else let installments = alreadyPaid + 1;
               isCompleted = (installments \<ge> tenure currentLoan);
               newStatus = (if isCompleted then Completed else Active)
           in Posted \<lparr>body_paidInstallments = installments,
                      body_remainingPrincipal = newPrincipal currentLoan,
                      body_nextDueDate = (if isCompleted then None else Some (nextDue currentLoan)),
                      body_status = newStatus\<rparr>)"

text \<open>
  \<open>handlePayment\<close> with the view state it reads and writes: \<open>loans.find\<close>, the count
  \<open>installmentsPaid[loanId] || 0\<close>, and \<open>setInstallmentsPaid\<close> when a payment goes out.
  The user is logged in and the request succeeds.
\<close>

definition alreadyPaidOf :: "(string \<rightharpoonup> int) \<Rightarrow> string \<Rightarrow> int" where
  "alreadyPaidOf installmentsPaid lid = (case installmentsPaid lid of None \<Rightarrow> 0 | Some k \<Rightarrow> k)"

definition handlePayment ::
  "Loan list \<Rightarrow> (string \<rightharpoonup> int) \<Rightarrow> string \<Rightarrow> outcome \<times> (string \<rightharpoonup> int)" where
  "handlePayment loans installmentsPaid lid =
     (case find (\<lambda>l. loanId l = lid) loans of
        None \<Rightarrow> (NoLoan, installmentsPaid)
      | Some currentLoan \<Rightarrow>
          (case payLoan currentLoan (alreadyPaidOf installmentsPaid lid) of
             Posted body \<Rightarrow> (Posted body, installmentsPaid(lid \<mapsto> body_paidInstallments body))
           | out \<Rightarrow> (out, installmentsPaid)))"


section \<open>Payments in sequence\<close>

text \<open>
  Modelled from the spec: the persistence collaborator (\<open>save\<close> behind
  \<open>/api/loans/:loanId/pay\<close>, then \<open>refetch\<close>) is not part of the sources. The handler's
  outputs are ``passed straight through to save'': the loan read back carries the four
  posted fields and is otherwise the same.
\<close>

definition persist :: "Loan \<Rightarrow> PayBody \<Rightarrow> Loan" where
  "persist l b =
     l\<lparr>paidInstallments := body_paidInstallments b,
       remainingPrincipal := body_remainingPrincipal b,
       nextDueDate := body_nextDueDate b,
       status := body_status b\<rparr>"

text \<open>
  One payment and the refetch after it. The view state is synchronised with the loans
  after every refetch (\<open>initial[loan.loanId] = loan.paidInstallments || 0\<close>), so the
  count the handler reads is the loan's own.
\<close>

definition payStep :: "Loan \<Rightarrow> Loan option" where
  "payStep l =
     (case payLoan l (paidInstallments l) of
        Posted b \<Rightarrow> Some (persist l b)
      | _ \<Rightarrow> None)"



section \<open>Example loans\<close>

text \<open>
  A loan of 1000 at 12 per cent a year over two months, due on 31 January 2024; its
  installment is \<open>computeEmi 1000 12 2\<close>.
\<close>

definition loan_jan31 :: Loan where
  "loan_jan31 =
     \<lparr>loanId = ''L1'', tenure = 2, interestRate = 12, emiAmount = 102010 / 201,
      remainingPrincipal = 1000, paidInstallments = 0,
      nextDueDate = Some \<lparr>fullYear = 2024, month = 0, date = 31\<rparr>,
      createdAt = \<lparr>fullYear = 2023, month = 11, date = 31\<rparr>, status = Active\<rparr>"

text \<open>The same loan marked completed although no installment is recorded as paid.\<close>

definition loan_marked :: Loan where
  "loan_marked = loan_jan31\<lparr>status := Completed\<rparr>"


section \<open>Properties of \<open>computeEmi\<close>\<close>

lemma pow_gt_one: "0 < (r::rat) \<Longrightarrow> 0 < n \<Longrightarrow> 1 < (1 + r) ^ n"
  by (simp add: one_less_power)

lemma computeEmi_zero_rate:
  "1 \<le> n \<Longrightarrow> r / 1200 = 0 \<Longrightarrow> computeEmi p r n = Some (p / of_int n)"
  by (simp add: computeEmi_def js_div_def)

lemma computeEmi_pos_rate:
  assumes "1 \<le> n" and r: "0 < r / 1200"
  shows "computeEmi p r n =
           Some (p * (r / 1200) * (1 + r / 1200) ^ nat n / ((1 + r / 1200) ^ nat n - 1))"
proof -
  have "0 < nat n" using assms by simp
  then have "1 < (1 + r / 1200) ^ nat n" using pow_gt_one [OF r] by blast
  then have "(1 + r / 1200) ^ nat n - 1 \<noteq> 0" by simp
  then show ?thesis using assms by (simp add: computeEmi_def js_div_def Let_def)
qed




text \<open>
  Claim C9. When the tenure is zero or negative, \<open>computeEmi\<close> returns \<open>0\<close>, a number and
  not an error, whatever the principal and the rate are.
\<close>

theorem computeEmi_nonpositive_tenure:
  "n \<le> 0 \<Longrightarrow> computeEmi p r n = Some 0 \<and> computeEmi p r n = computeEmi p' r' n"
  by (simp add: computeEmi_def)

theorem computeEmi_nonpositive_tenure_witness:
  "(-3::int) \<le> 0 \<and> computeEmi 1000 12 (-3) = Some 0 \<and> computeEmi 1000 12 (-3) = computeEmi 5 0 (-3)"
proof -
  have h: "(-3::int) \<le> 0" by simp
  show ?thesis using h computeEmi_nonpositive_tenure [OF h, of 1000 12 5 0] by blast
qed

text \<open>
  Claim C10. The EMI is homogeneous in the principal: for a rate \<open>r \<ge> 0\<close>, a tenure
  \<open>n \<ge> 1\<close> and a scalar \<open>k \<ge> 0\<close>, the EMI of \<open>k \<times> p\<close> is \<open>k\<close> times the EMI of \<open>p\<close>, in exact
  arithmetic.
\<close>

theorem computeEmi_homogeneous:
  assumes r: "0 \<le> r" and n: "1 \<le> n" and k: "0 \<le> k"
  shows "\<exists>e. computeEmi p r n = Some e \<and> computeEmi (k * p) r n = Some (k * e)"
proof (cases "r = 0")
  case True
  then show ?thesis using n by (simp add: computeEmi_zero_rate)
next
  case False
  then have m: "0 < r / 1200" using r by simp
  show ?thesis
    using computeEmi_pos_rate [OF n m, of p] computeEmi_pos_rate [OF n m, of "k * p"]
    by (simp add: mult.assoc)
qed

theorem computeEmi_homogeneous_witness:
  "(0::rat) \<le> 12 \<and> (1::int) \<le> 2 \<and> (0::rat) \<le> 3 \<and>
   (\<exists>e. computeEmi 1000 12 2 = Some e \<and> computeEmi (3 * 1000) 12 2 = Some (3 * e))"
  using computeEmi_homogeneous [of 12 2 3 1000] by simp




section \<open>Properties of \<open>handlePayment\<close>\<close>

lemma payLoan_rejects: "payLoan l a = LoanCompleted \<longleftrightarrow> tenure l \<le> a"
  by (simp add: payLoan_def Let_def)

lemma payLoan_posts:
  "a < tenure l \<Longrightarrow>
   payLoan l a =
     Posted \<lparr>body_paidInstallments = a + 1,
             body_remainingPrincipal = newPrincipal l,
             body_nextDueDate = (if tenure l \<le> a + 1 then None else Some (nextDue l)),
             body_status = (if tenure l \<le> a + 1 then Completed else Active)\<rparr>"
  by (simp add: payLoan_def Let_def)

lemma payLoan_Posted_iff:
  "payLoan l a = Posted b \<longleftrightarrow>
   a < tenure l \<and>
   b = \<lparr>body_paidInstallments = a + 1,
        body_remainingPrincipal = newPrincipal l,
        body_nextDueDate = (if tenure l \<le> a + 1 then None else Some (nextDue l)),
        body_status = (if tenure l \<le> a + 1 then Completed else Active)\<rparr>"
  by (auto simp add: payLoan_def Let_def)

lemma handlePayment_found:
  "find (\<lambda>x. loanId x = lid) loans = Some l \<Longrightarrow>
   handlePayment loans ip lid =
     (if tenure l \<le> alreadyPaidOf ip lid then (LoanCompleted, ip)
      else (payLoan l (alreadyPaidOf ip lid), ip(lid \<mapsto> alreadyPaidOf ip lid + 1)))"
  by (simp add: handlePayment_def payLoan_def Let_def)

lemma find_map_status:
  "find (\<lambda>x. loanId x = lid) (map (\<lambda>x. x\<lparr>status := g x\<rparr>) loans) =
   map_option (\<lambda>x. x\<lparr>status := g x\<rparr>) (find (\<lambda>x. loanId x = lid) loans)"
  by (induction loans) simp_all

lemma baseDate_status_irrelevant: "baseDate (l\<lparr>status := s\<rparr>) = baseDate l"
  by (cases "nextDueDate l") (simp_all add: baseDate_def)

lemma nextDue_status_irrelevant: "nextDue (l\<lparr>status := s\<rparr>) = nextDue l"
  by (simp add: nextDue_def baseDate_status_irrelevant)

lemma newPrincipal_status_irrelevant: "newPrincipal (l\<lparr>status := s\<rparr>) = newPrincipal l"
  by (simp add: newPrincipal_def principalPaid_def interestPaid_def monthlyRate_def)

lemma payLoan_status_irrelevant: "payLoan (l\<lparr>status := s\<rparr>) a = payLoan l a"
  by (simp add: payLoan_def Let_def nextDue_status_irrelevant newPrincipal_status_irrelevant)

text \<open>
  Claim C2. A payment applied to a loan with remaining principal \<open>p\<close>, annual rate
  \<open>interestRate\<close> (monthly rate \<open>r = interestRate / 1200\<close>) and installment \<open>E\<close> computes the
  interest \<open>p \<times> r\<close> and the principal part \<open>E - p \<times> r\<close>, and posts
  \<open>max 0 (p - (E - p \<times> r))\<close> as the new remaining principal.
\<close>

theorem handlePayment_amounts:
  assumes "find (\<lambda>x. loanId x = lid) loans = Some l"
    and "fst (handlePayment loans ip lid) = Posted b"
  shows "interestPaid l = remainingPrincipal l * (interestRate l / 1200) \<and>
         principalPaid l = emiAmount l - interestPaid l \<and>
         body_remainingPrincipal b = max 0 (remainingPrincipal l - principalPaid l)"
proof -
  have "payLoan l (alreadyPaidOf ip lid) = Posted b"
    using assms by (simp add: handlePayment_found split: if_splits)
  then have "body_remainingPrincipal b = newPrincipal l"
    by (simp add: payLoan_Posted_iff)
  then show ?thesis
    by (simp add: newPrincipal_def principalPaid_def interestPaid_def monthlyRate_def)
qed

theorem handlePayment_amounts_witness:
  "find (\<lambda>x. loanId x = ''L1'') [loan_jan31] = Some loan_jan31 \<and>
   fst (handlePayment [loan_jan31] Map.empty ''L1'') =
     Posted \<lparr>body_paidInstallments = 1, body_remainingPrincipal = 101000 / 201,
             body_nextDueDate = Some \<lparr>fullYear = 2024, month = 2, date = 2\<rparr>,
             body_status = Active\<rparr> \<and>
   interestPaid loan_jan31 = 10 \<and> principalPaid loan_jan31 = 100000 / 201 \<and>
   (101000 / 201 :: rat) = max 0 (remainingPrincipal loan_jan31 - principalPaid loan_jan31)"
proof -
  have f: "find (\<lambda>x. loanId x = ''L1'') [loan_jan31] = Some loan_jan31"
    by (simp add: loan_jan31_def)
  have h: "fst (handlePayment [loan_jan31] Map.empty ''L1'') =
     Posted \<lparr>body_paidInstallments = 1, body_remainingPrincipal = 101000 / 201,
             body_nextDueDate = Some \<lparr>fullYear = 2024, month = 2, date = 2\<rparr>,
             body_status = Active\<rparr>"
    by (simp add: handlePayment_def loan_jan31_def alreadyPaidOf_def payLoan_def Let_def
        newPrincipal_def principalPaid_def interestPaid_def monthlyRate_def nextDue_def
        baseDate_def setMonth_def makeDay.simps daysInMonth_def isLeapYear_def)
  show ?thesis
    using f h handlePayment_amounts [OF f h]
    by (simp add: loan_jan31_def)
qed


lemma handlePayment_status_irrelevant:
  "handlePayment (map (\<lambda>x. x\<lparr>status := g x\<rparr>) loans) ip lid = handlePayment loans ip lid"
proof (cases "find (\<lambda>x. loanId x = lid) loans")
  case None
  then show ?thesis by (simp add: handlePayment_def find_map_status)
next
  case (Some l)
  then show ?thesis
    by (simp add: handlePayment_def find_map_status payLoan_status_irrelevant)
qed

text \<open>
  Claim C8. The guard of \<open>handlePayment\<close> stops a payment as already completed if and only
  if the recorded count of paid installments is at least the tenure. The \<open>status\<close> field
  is not read: changing the status of the loans changes nothing in what the handler does,
  and a loan marked completed whose count is below its tenure is paid like any other.
\<close>

theorem guard_reads_count_only:
  assumes "find (\<lambda>x. loanId x = lid) loans = Some l"
  shows "(fst (handlePayment loans ip lid) = LoanCompleted \<longleftrightarrow> tenure l \<le> alreadyPaidOf ip lid) \<and>
         handlePayment (map (\<lambda>x. x\<lparr>status := g x\<rparr>) loans) ip lid = handlePayment loans ip lid \<and>
         (status l = Completed \<and> alreadyPaidOf ip lid < tenure l \<longrightarrow>
            fst (handlePayment loans ip lid) =
              Posted \<lparr>body_paidInstallments = alreadyPaidOf ip lid + 1,
                      body_remainingPrincipal = newPrincipal l,
                      body_nextDueDate =
                        (if tenure l \<le> alreadyPaidOf ip lid + 1 then None else Some (nextDue l)),
                      body_status =
                        (if tenure l \<le> alreadyPaidOf ip lid + 1 then Completed else Active)\<rparr>)"
proof -
  have a: "fst (handlePayment loans ip lid) = LoanCompleted \<longleftrightarrow> tenure l \<le> alreadyPaidOf ip lid"
    using assms by (simp add: handlePayment_found payLoan_rejects)
  have c: "alreadyPaidOf ip lid < tenure l \<Longrightarrow>
            fst (handlePayment loans ip lid) =
              Posted \<lparr>body_paidInstallments = alreadyPaidOf ip lid + 1,
                      body_remainingPrincipal = newPrincipal l,
                      body_nextDueDate =
                        (if tenure l \<le> alreadyPaidOf ip lid + 1 then None else Some (nextDue l)),
                      body_status =
                        (if tenure l \<le> alreadyPaidOf ip lid + 1 then Completed else Active)\<rparr>"
    using assms by (simp add: handlePayment_found payLoan_posts)
  show ?thesis using a c handlePayment_status_irrelevant by blast
qed

theorem guard_reads_count_only_witness:
  "find (\<lambda>x. loanId x = ''L1'') [loan_marked] = Some loan_marked \<and>
   status loan_marked = Completed \<and> alreadyPaidOf Map.empty ''L1'' < tenure loan_marked \<and>
   fst (handlePayment [loan_marked] Map.empty ''L1'') \<noteq> LoanCompleted \<and>
   fst (handlePayment [loan_marked] Map.empty ''L1'') =
     Posted \<lparr>body_paidInstallments = 1, body_remainingPrincipal = 101000 / 201,
             body_nextDueDate = Some (nextDue loan_marked), body_status = Active\<rparr> \<and>
   fst (handlePayment [loan_marked] [''L1'' \<mapsto> 2] ''L1'') = LoanCompleted"
proof -
  have f: "find (\<lambda>x. loanId x = ''L1'') [loan_marked] = Some loan_marked"
    by (simp add: loan_marked_def loan_jan31_def)
  have s: "status loan_marked = Completed" by (simp add: loan_marked_def)
  have t: "tenure loan_marked = 2" by (simp add: loan_marked_def loan_jan31_def)
  have n: "newPrincipal loan_marked = 101000 / 201"
    by (simp add: loan_marked_def loan_jan31_def newPrincipal_def principalPaid_def
        interestPaid_def monthlyRate_def)
  have a0: "alreadyPaidOf Map.empty ''L1'' = 0" by (simp add: alreadyPaidOf_def)
  have a2: "alreadyPaidOf [''L1'' \<mapsto> 2] ''L1'' = 2" by (simp add: alreadyPaidOf_def)
  show ?thesis
    using f s t n a0 a2
      guard_reads_count_only [OF f, of Map.empty]
      guard_reads_count_only [OF f, of "[''L1'' \<mapsto> 2]"]
    by simp
qed

text \<open>
  Claim C4 says that the next due date is one calendar month later, clamped to the last
  day of a shorter month, so that 2024-01-31 is followed by 2024-02-29. The handler
  calls \<open>setMonth(getMonth() + 1)\<close>, which does not clamp: the loan due on 2024-01-31 gets
  the next due date 2024-03-02 (month \<open>2\<close> is March).
\<close>

theorem jan31_due_date_skips_february:
  "nextDueDate loan_jan31 = Some \<lparr>fullYear = 2024, month = 0, date = 31\<rparr> \<and>
   fst (handlePayment [loan_jan31] Map.empty ''L1'') =
     Posted \<lparr>body_paidInstallments = 1, body_remainingPrincipal = 101000 / 201,
             body_nextDueDate = Some \<lparr>fullYear = 2024, month = 2, date = 2\<rparr>,
             body_status = Active\<rparr>"
  by (simp add: handlePayment_def loan_jan31_def alreadyPaidOf_def payLoan_def
        Let_def newPrincipal_def principalPaid_def interestPaid_def monthlyRate_def nextDue_def
        baseDate_def setMonth_def makeDay.simps daysInMonth_def isLeapYear_def)

text \<open>
  Where the next month has the day, the day is kept, and from December the year
  advances. Where the next month is too short, the date runs over into the month after
  it.
\<close>

lemma makeDay_fits: "d \<le> daysInMonth y m \<Longrightarrow> makeDay y m d = \<lparr>fullYear = y, month = m, date = d\<rparr>"
  by (simp add: makeDay.simps)

lemma makeDay_overflow:
  "daysInMonth y m < d \<Longrightarrow> d \<le> 31 \<Longrightarrow> m < 11 \<Longrightarrow>
   makeDay y m d = \<lparr>fullYear = y, month = m + 1, date = d - daysInMonth y m\<rparr>"
  by (subst makeDay.simps, simp, subst makeDay.simps) (auto simp add: daysInMonth_def)

lemma nextDue_same_day:
  assumes "month (baseDate l) < 11"
    and "date (baseDate l) \<le> daysInMonth (fullYear (baseDate l)) (month (baseDate l) + 1)"
  shows "nextDue l = \<lparr>fullYear = fullYear (baseDate l), month = month (baseDate l) + 1,
                      date = date (baseDate l)\<rparr>"
  using assms by (simp add: nextDue_def setMonth_def makeDay_fits)

lemma nextDue_december:
  assumes "month (baseDate l) = 11" and "date (baseDate l) \<le> 31"
  shows "nextDue l = \<lparr>fullYear = fullYear (baseDate l) + 1, month = 0, date = date (baseDate l)\<rparr>"
  using assms by (simp add: nextDue_def setMonth_def makeDay_fits daysInMonth_def)

lemma nextDue_overflow:
  assumes "month (baseDate l) < 10"
    and "daysInMonth (fullYear (baseDate l)) (month (baseDate l) + 1) < date (baseDate l)"
    and "date (baseDate l) \<le> 31"
  shows "nextDue l = \<lparr>fullYear = fullYear (baseDate l), month = month (baseDate l) + 2,
           date = date (baseDate l) - daysInMonth (fullYear (baseDate l)) (month (baseDate l) + 1)\<rparr>"
  using assms by (simp add: nextDue_def setMonth_def makeDay_overflow)

section \<open>Properties of payments in sequence\<close>

lemma payStep_handlePayment:
  "payStep l =
     (case fst (handlePayment [l] [loanId l \<mapsto> paidInstallments l] (loanId l)) of
        Posted b \<Rightarrow> Some (persist l b)
      | _ \<Rightarrow> None)"
  by (simp add: payStep_def handlePayment_def alreadyPaidOf_def split: outcome.splits)





















end
